theory Spec2Isabelle
  imports Main "HOL-Library.Multiset"
begin

section \<open>The syntax tree walked by CodeAnalyzer\<close>

text \<open>
  \<^verbatim>\<open>CodeAnalyzer\<close> (file \<^verbatim>\<open>code_analyzer.py\<close>) parses a Python file with
  \<^verbatim>\<open>ast.parse\<close> and walks the resulting tree with \<^verbatim>\<open>ast.walk\<close>.  The tree is
  modelled after the abstract grammar of CPython 3.12 (\<^verbatim>\<open>Python.asdl\<close>): one datatype
  per grammar sort, one constructor per node class, the arguments in the order of the
  class's \<^verbatim>\<open>_fields\<close>.  Sorts that carry source positions (\<^verbatim>\<open>lineno\<close>,
  \<^verbatim>\<open>col_offset\<close>, \<^verbatim>\<open>end_lineno\<close>, \<^verbatim>\<open>end_col_offset\<close>) take them as a last argument of
  type \<open>location\<close>.  Three constructors are suffixed because their names are taken in
  HOL: \<open>If_stmt\<close> (class \<^verbatim>\<open>If\<close>), \<open>Not_op\<close> (\<^verbatim>\<open>Not\<close>), \<open>Pow_op\<close> (\<^verbatim>\<open>Pow\<close>); so are
  the sorts \<open>mod_node\<close> (\<^verbatim>\<open>mod\<close>), \<open>alias_node\<close> (\<^verbatim>\<open>alias\<close>), \<open>constant_value\<close>
  (\<^verbatim>\<open>constant\<close>) and \<open>ident\<close> (\<^verbatim>\<open>identifier\<close>).  Float, complex and bytes literals keep
  their source text: the analyzer never looks at them.
\<close>

type_synonym ident = string

datatype location =
  Location (lineno: int) (col_offset: int) (end_lineno: "int option")
           (end_col_offset: "int option")

datatype constant_value =
    CNone | CBool bool | CInt int | CFloat string | CComplex string
  | CStr string | CBytes string | CEllipsis

datatype expr_context = Load | Store | Del

datatype boolop = And | Or

datatype operator =
    Add | Sub | Mult | MatMult | Div | Mod | Pow_op | LShift | RShift
  | BitOr | BitXor | BitAnd | FloorDiv

datatype unaryop = Invert | Not_op | UAdd | USub

datatype cmpop = Eq | NotEq | Lt | LtE | Gt | GtE | Is | IsNot | In | NotIn

datatype expr =
    BoolOp boolop "expr list" location
  | NamedExpr expr expr location
  | BinOp expr operator expr location
  | UnaryOp unaryop expr location
  | Lambda arguments expr location
  | IfExp expr expr expr location
  | Dict "expr option list" "expr list" location
  | Set "expr list" location
  | ListComp expr "comprehension list" location
  | SetComp expr "comprehension list" location
  | DictComp expr expr "comprehension list" location
  | GeneratorExp expr "comprehension list" location
  | Await expr location
  | Yield "expr option" location
  | YieldFrom expr location
  | Compare expr "cmpop list" "expr list" location
  | Call expr "expr list" "keyword list" location
  | FormattedValue expr int "expr option" location
  | JoinedStr "expr list" location
  | Constant constant_value "string option" location
  | Attribute expr ident expr_context location
  | Subscript expr expr expr_context location
  | Starred expr expr_context location
  | Name ident expr_context location
  | List "expr list" expr_context location
  | Tuple "expr list" expr_context location
  | Slice "expr option" "expr option" "expr option" location
and comprehension =
    Comprehension expr expr "expr list" int
and arguments =
    Arguments "arg list" "arg list" "arg option" "arg list"
              "expr option list" "arg option" "expr list"
and arg =
    Arg ident "expr option" "string option" location
and keyword =
    Keyword "ident option" expr location

datatype alias_node = Alias ident "ident option" location

datatype withitem = Withitem expr "expr option"

datatype pattern =
    MatchValue expr location
  | MatchSingleton constant_value location
  | MatchSequence "pattern list" location
  | MatchMapping "expr list" "pattern list" "ident option" location
  | MatchClass expr "pattern list" "ident list" "pattern list" location
  | MatchStar "ident option" location
  | MatchAs "pattern option" "ident option" location
  | MatchOr "pattern list" location

datatype type_ignore = TypeIgnore int string

datatype type_param =
    TypeVar ident "expr option" location
  | ParamSpec ident location
  | TypeVarTuple ident location

datatype stmt =
    FunctionDef ident arguments "stmt list" "expr list" "expr option"
                "string option" "type_param list" location
  | AsyncFunctionDef ident arguments "stmt list" "expr list" "expr option"
                "string option" "type_param list" location
  | ClassDef ident "expr list" "keyword list" "stmt list" "expr list"
             "type_param list" location
  | Return "expr option" location
  | Delete "expr list" location
  | Assign "expr list" expr "string option" location
  | TypeAlias expr "type_param list" expr location
  | AugAssign expr operator expr location
  | AnnAssign expr expr "expr option" int location
  | For expr expr "stmt list" "stmt list" "string option" location
  | AsyncFor expr expr "stmt list" "stmt list" "string option" location
  | While expr "stmt list" "stmt list" location
  | If_stmt expr "stmt list" "stmt list" location
  | With "withitem list" "stmt list" "string option" location
  | AsyncWith "withitem list" "stmt list" "string option" location
  | Match expr "match_case list" location
  | Raise "expr option" "expr option" location
  | Try "stmt list" "excepthandler list" "stmt list" "stmt list" location
  | TryStar "stmt list" "excepthandler list" "stmt list" "stmt list" location
  | Assert expr "expr option" location
  | Import "alias_node list" location
  | ImportFrom "ident option" "alias_node list" "int option" location
  | Global "ident list" location
  | Nonlocal "ident list" location
  | Expr expr location
  | Pass location
  | Break location
  | Continue location
and excepthandler =
    ExceptHandler "expr option" "ident option" "stmt list" location
and match_case =
    MatchCase pattern "expr option" "stmt list"

datatype mod_node =
    Module "stmt list" "type_ignore list"
  | Interactive "stmt list"
  | Expression expr
  | FunctionType "expr list" expr

text \<open>
  Every object of the tree is an instance of \<^verbatim>\<open>ast.AST\<close>, whatever its sort; \<open>node\<close> is
  that base class.  The operator and context markers (\<^verbatim>\<open>Load\<close>, \<^verbatim>\<open>Add\<close>, ...) are nodes
  too, and \<^verbatim>\<open>ast.walk\<close> visits them.
\<close>

datatype node =
    NMod mod_node | NStmt stmt | NExpr expr | NExprContext expr_context
  | NBoolop boolop | NOperator operator | NUnaryop unaryop | NCmpop cmpop
  | NComprehension comprehension | NExcepthandler excepthandler
  | NArguments arguments | NArg arg | NKeyword keyword | NAlias alias_node
  | NWithitem withitem | NMatchCase match_case | NPattern pattern
  | NTypeIgnore type_ignore | NTypeParam type_param

section \<open>ast.iter_child_nodes and ast.walk\<close>

text \<open>
  \<^verbatim>\<open>
  def iter_child_nodes(node):
      for name, field in iter_fields(node):
          if isinstance(field, AST):
              yield field
          elif isinstance(field, list):
              for item in field:
                  if isinstance(item, AST):
                      yield item
  \<close>
  The fields are visited in the order of \<^verbatim>\<open>_fields\<close>.  A field that is \<^verbatim>\<open>None\<close>, a
  string or a number is no node and is skipped; so is a \<^verbatim>\<open>None\<close> inside a list (the
  keys of a dictionary display and the keyword-only defaults may hold one).
\<close>

fun opt :: "('a \<Rightarrow> node) \<Rightarrow> 'a option \<Rightarrow> node list" where
  "opt f None = []"
| "opt f (Some x) = [f x]"

fun children_expr :: "expr \<Rightarrow> node list" where
  "children_expr (BoolOp op vs l) = NBoolop op # map NExpr vs"
| "children_expr (NamedExpr t v l) = [NExpr t, NExpr v]"
| "children_expr (BinOp a op b l) = [NExpr a, NOperator op, NExpr b]"
| "children_expr (UnaryOp op a l) = [NUnaryop op, NExpr a]"
| "children_expr (Lambda as b l) = [NArguments as, NExpr b]"
| "children_expr (IfExp c a b l) = [NExpr c, NExpr a, NExpr b]"
| "children_expr (Dict ks vs l) = concat (map (opt NExpr) ks) @ map NExpr vs"
| "children_expr (Set es l) = map NExpr es"
| "children_expr (ListComp e gs l) = NExpr e # map NComprehension gs"
| "children_expr (SetComp e gs l) = NExpr e # map NComprehension gs"
| "children_expr (DictComp k v gs l) = NExpr k # NExpr v # map NComprehension gs"
| "children_expr (GeneratorExp e gs l) = NExpr e # map NComprehension gs"
| "children_expr (Await v l) = [NExpr v]"
| "children_expr (Yield v l) = opt NExpr v"
| "children_expr (YieldFrom v l) = [NExpr v]"
| "children_expr (Compare a ops cs l) = NExpr a # map NCmpop ops @ map NExpr cs"
| "children_expr (Call f as ks l) = NExpr f # map NExpr as @ map NKeyword ks"
| "children_expr (FormattedValue v c fs l) = NExpr v # opt NExpr fs"
| "children_expr (JoinedStr vs l) = map NExpr vs"
| "children_expr (Constant c k l) = []"
| "children_expr (Attribute v a ctx l) = [NExpr v, NExprContext ctx]"
| "children_expr (Subscript v s ctx l) = [NExpr v, NExpr s, NExprContext ctx]"
| "children_expr (Starred v ctx l) = [NExpr v, NExprContext ctx]"
| "children_expr (Name i ctx l) = [NExprContext ctx]"
| "children_expr (List es ctx l) = map NExpr es @ [NExprContext ctx]"
| "children_expr (Tuple es ctx l) = map NExpr es @ [NExprContext ctx]"
| "children_expr (Slice lo hi st l) = opt NExpr lo @ opt NExpr hi @ opt NExpr st"

fun children_comprehension :: "comprehension \<Rightarrow> node list" where
  "children_comprehension (Comprehension t i ifs a) = NExpr t # NExpr i # map NExpr ifs"

fun children_arguments :: "arguments \<Rightarrow> node list" where
  "children_arguments (Arguments ps as va kws kds kwa ds) =
     map NArg ps @ map NArg as @ opt NArg va @ map NArg kws
     @ concat (map (opt NExpr) kds) @ opt NArg kwa @ map NExpr ds"

fun children_arg :: "arg \<Rightarrow> node list" where
  "children_arg (Arg a ann tc l) = opt NExpr ann"

fun children_keyword :: "keyword \<Rightarrow> node list" where
  "children_keyword (Keyword a v l) = [NExpr v]"

fun children_withitem :: "withitem \<Rightarrow> node list" where
  "children_withitem (Withitem e v) = NExpr e # opt NExpr v"

fun children_pattern :: "pattern \<Rightarrow> node list" where
  "children_pattern (MatchValue v l) = [NExpr v]"
| "children_pattern (MatchSingleton c l) = []"
| "children_pattern (MatchSequence ps l) = map NPattern ps"
| "children_pattern (MatchMapping ks ps r l) = map NExpr ks @ map NPattern ps"
| "children_pattern (MatchClass c ps as kps l) =
     NExpr c # map NPattern ps @ map NPattern kps"
| "children_pattern (MatchStar n l) = []"
| "children_pattern (MatchAs p n l) = opt NPattern p"
| "children_pattern (MatchOr ps l) = map NPattern ps"

fun children_type_param :: "type_param \<Rightarrow> node list" where
  "children_type_param (TypeVar n b l) = opt NExpr b"
| "children_type_param (ParamSpec n l) = []"
| "children_type_param (TypeVarTuple n l) = []"

fun children_stmt :: "stmt \<Rightarrow> node list" where
  "children_stmt (FunctionDef n as body ds r tc tps l) =
     NArguments as # map NStmt body @ map NExpr ds @ opt NExpr r @ map NTypeParam tps"
| "children_stmt (AsyncFunctionDef n as body ds r tc tps l) =
     NArguments as # map NStmt body @ map NExpr ds @ opt NExpr r @ map NTypeParam tps"
| "children_stmt (ClassDef n bs ks body ds tps l) =
     map NExpr bs @ map NKeyword ks @ map NStmt body @ map NExpr ds @ map NTypeParam tps"
| "children_stmt (Return v l) = opt NExpr v"
| "children_stmt (Delete ts l) = map NExpr ts"
| "children_stmt (Assign ts v tc l) = map NExpr ts @ [NExpr v]"
| "children_stmt (TypeAlias n tps v l) = NExpr n # map NTypeParam tps @ [NExpr v]"
| "children_stmt (AugAssign t op v l) = [NExpr t, NOperator op, NExpr v]"
| "children_stmt (AnnAssign t a v s l) = NExpr t # NExpr a # opt NExpr v"
| "children_stmt (For t i body orelse tc l) =
     NExpr t # NExpr i # map NStmt body @ map NStmt orelse"
| "children_stmt (AsyncFor t i body orelse tc l) =
     NExpr t # NExpr i # map NStmt body @ map NStmt orelse"
| "children_stmt (While c body orelse l) = NExpr c # map NStmt body @ map NStmt orelse"
| "children_stmt (If_stmt c body orelse l) = NExpr c # map NStmt body @ map NStmt orelse"
| "children_stmt (With items body tc l) = map NWithitem items @ map NStmt body"
| "children_stmt (AsyncWith items body tc l) = map NWithitem items @ map NStmt body"
| "children_stmt (Match s cs l) = NExpr s # map NMatchCase cs"
| "children_stmt (Raise e c l) = opt NExpr e @ opt NExpr c"
| "children_stmt (Try body hs orelse final l) =
     map NStmt body @ map NExcepthandler hs @ map NStmt orelse @ map NStmt final"
| "children_stmt (TryStar body hs orelse final l) =
     map NStmt body @ map NExcepthandler hs @ map NStmt orelse @ map NStmt final"
| "children_stmt (Assert c m l) = NExpr c # opt NExpr m"
| "children_stmt (Import ns l) = map NAlias ns"
| "children_stmt (ImportFrom m ns lv l) = map NAlias ns"
| "children_stmt (Global ns l) = []"
| "children_stmt (Nonlocal ns l) = []"
| "children_stmt (Expr v l) = [NExpr v]"
| "children_stmt (Pass l) = []"
| "children_stmt (Break l) = []"
| "children_stmt (Continue l) = []"

fun children_excepthandler :: "excepthandler \<Rightarrow> node list" where
  "children_excepthandler (ExceptHandler t n body l) = opt NExpr t @ map NStmt body"

fun children_match_case :: "match_case \<Rightarrow> node list" where
  "children_match_case (MatchCase p g body) = NPattern p # opt NExpr g @ map NStmt body"

fun children_mod :: "mod_node \<Rightarrow> node list" where
  "children_mod (Module body tis) = map NStmt body @ map NTypeIgnore tis"
| "children_mod (Interactive body) = map NStmt body"
| "children_mod (Expression e) = [NExpr e]"
| "children_mod (FunctionType as r) = map NExpr as @ [NExpr r]"

fun iter_child_nodes :: "node \<Rightarrow> node list" where
  "iter_child_nodes (NMod m) = children_mod m"
| "iter_child_nodes (NStmt s) = children_stmt s"
| "iter_child_nodes (NExpr e) = children_expr e"
| "iter_child_nodes (NExprContext c) = []"
| "iter_child_nodes (NBoolop b) = []"
| "iter_child_nodes (NOperator b) = []"
| "iter_child_nodes (NUnaryop u) = []"
| "iter_child_nodes (NCmpop c) = []"
| "iter_child_nodes (NComprehension c) = children_comprehension c"
| "iter_child_nodes (NExcepthandler h) = children_excepthandler h"
| "iter_child_nodes (NArguments a) = children_arguments a"
| "iter_child_nodes (NArg a) = children_arg a"
| "iter_child_nodes (NKeyword k) = children_keyword k"
| "iter_child_nodes (NAlias a) = []"
| "iter_child_nodes (NWithitem w) = children_withitem w"
| "iter_child_nodes (NMatchCase c) = children_match_case c"
| "iter_child_nodes (NPattern p) = children_pattern p"
| "iter_child_nodes (NTypeIgnore t) = []"
| "iter_child_nodes (NTypeParam t) = children_type_param t"

text \<open>
  The number of nodes of a tree, by recursion over the grammar.  It serves as the measure
  under which the walk terminates.
\<close>

fun osum :: "nat option \<Rightarrow> nat" where
  "osum None = 0"
| "osum (Some k) = k"

primrec nodes_expr :: "expr \<Rightarrow> nat"
  and nodes_comprehension :: "comprehension \<Rightarrow> nat"
  and nodes_arguments :: "arguments \<Rightarrow> nat"
  and nodes_arg :: "arg \<Rightarrow> nat"
  and nodes_keyword :: "keyword \<Rightarrow> nat" where
  "nodes_expr (BoolOp op vs l) = 2 + sum_list (map nodes_expr vs)"
| "nodes_expr (NamedExpr t v l) = 1 + nodes_expr t + nodes_expr v"
| "nodes_expr (BinOp a op b l) = 2 + nodes_expr a + nodes_expr b"
| "nodes_expr (UnaryOp op a l) = 2 + nodes_expr a"
| "nodes_expr (Lambda as b l) = 1 + nodes_arguments as + nodes_expr b"
| "nodes_expr (IfExp c a b l) = 1 + nodes_expr c + nodes_expr a + nodes_expr b"
| "nodes_expr (Dict ks vs l) =
     1 + sum_list (map osum (map (map_option nodes_expr) ks)) + sum_list (map nodes_expr vs)"
| "nodes_expr (Set es l) = 1 + sum_list (map nodes_expr es)"
| "nodes_expr (ListComp e gs l) = 1 + nodes_expr e + sum_list (map nodes_comprehension gs)"
| "nodes_expr (SetComp e gs l) = 1 + nodes_expr e + sum_list (map nodes_comprehension gs)"
| "nodes_expr (DictComp k v gs l) =
     1 + nodes_expr k + nodes_expr v + sum_list (map nodes_comprehension gs)"
| "nodes_expr (GeneratorExp e gs l) =
     1 + nodes_expr e + sum_list (map nodes_comprehension gs)"
| "nodes_expr (Await v l) = 1 + nodes_expr v"
| "nodes_expr (Yield v l) = 1 + osum (map_option nodes_expr v)"
| "nodes_expr (YieldFrom v l) = 1 + nodes_expr v"
| "nodes_expr (Compare a ops cs l) =
     1 + nodes_expr a + length ops + sum_list (map nodes_expr cs)"
| "nodes_expr (Call f as ks l) =
     1 + nodes_expr f + sum_list (map nodes_expr as) + sum_list (map nodes_keyword ks)"
| "nodes_expr (FormattedValue v c fs l) = 1 + nodes_expr v + osum (map_option nodes_expr fs)"
| "nodes_expr (JoinedStr vs l) = 1 + sum_list (map nodes_expr vs)"
| "nodes_expr (Constant c k l) = 1"
| "nodes_expr (Attribute v a ctx l) = 2 + nodes_expr v"
| "nodes_expr (Subscript v s ctx l) = 2 + nodes_expr v + nodes_expr s"
| "nodes_expr (Starred v ctx l) = 2 + nodes_expr v"
| "nodes_expr (Name i ctx l) = 2"
| "nodes_expr (List es ctx l) = 2 + sum_list (map nodes_expr es)"
| "nodes_expr (Tuple es ctx l) = 2 + sum_list (map nodes_expr es)"
| "nodes_expr (Slice lo hi st l) =
     1 + osum (map_option nodes_expr lo) + osum (map_option nodes_expr hi)
       + osum (map_option nodes_expr st)"
| "nodes_comprehension (Comprehension t i ifs a) =
     1 + nodes_expr t + nodes_expr i + sum_list (map nodes_expr ifs)"
| "nodes_arguments (Arguments ps as va kws kds kwa ds) =
     1 + sum_list (map nodes_arg ps) + sum_list (map nodes_arg as)
       + osum (map_option nodes_arg va) + sum_list (map nodes_arg kws)
       + sum_list (map osum (map (map_option nodes_expr) kds))
       + osum (map_option nodes_arg kwa) + sum_list (map nodes_expr ds)"
| "nodes_arg (Arg a ann tc l) = 1 + osum (map_option nodes_expr ann)"
| "nodes_keyword (Keyword a v l) = 1 + nodes_expr v"


primrec nodes_pattern :: "pattern \<Rightarrow> nat" where
  "nodes_pattern (MatchValue v l) = 1 + nodes_expr v"
| "nodes_pattern (MatchSingleton c l) = 1"
| "nodes_pattern (MatchSequence ps l) = 1 + sum_list (map nodes_pattern ps)"
| "nodes_pattern (MatchMapping ks ps r l) =
     1 + sum_list (map nodes_expr ks) + sum_list (map nodes_pattern ps)"
| "nodes_pattern (MatchClass c ps as kps l) =
     1 + nodes_expr c + sum_list (map nodes_pattern ps) + sum_list (map nodes_pattern kps)"
| "nodes_pattern (MatchStar n l) = 1"
| "nodes_pattern (MatchAs p n l) = 1 + osum (map_option nodes_pattern p)"
| "nodes_pattern (MatchOr ps l) = 1 + sum_list (map nodes_pattern ps)"

fun nodes_withitem :: "withitem \<Rightarrow> nat" where
  "nodes_withitem (Withitem e v) = 1 + nodes_expr e + osum (map_option nodes_expr v)"

fun nodes_type_param :: "type_param \<Rightarrow> nat" where
  "nodes_type_param (TypeVar n b l) = 1 + osum (map_option nodes_expr b)"
| "nodes_type_param (ParamSpec n l) = 1"
| "nodes_type_param (TypeVarTuple n l) = 1"

primrec nodes_stmt :: "stmt \<Rightarrow> nat"
  and nodes_excepthandler :: "excepthandler \<Rightarrow> nat"
  and nodes_match_case :: "match_case \<Rightarrow> nat" where
  "nodes_stmt (FunctionDef n as body ds r tc tps l) =
     1 + nodes_arguments as + sum_list (map nodes_stmt body) + sum_list (map nodes_expr ds)
       + osum (map_option nodes_expr r) + sum_list (map nodes_type_param tps)"
| "nodes_stmt (AsyncFunctionDef n as body ds r tc tps l) =
     1 + nodes_arguments as + sum_list (map nodes_stmt body) + sum_list (map nodes_expr ds)
       + osum (map_option nodes_expr r) + sum_list (map nodes_type_param tps)"
| "nodes_stmt (ClassDef n bs ks body ds tps l) =
     1 + sum_list (map nodes_expr bs) + sum_list (map nodes_keyword ks)
       + sum_list (map nodes_stmt body) + sum_list (map nodes_expr ds)
       + sum_list (map nodes_type_param tps)"
| "nodes_stmt (Return v l) = 1 + osum (map_option nodes_expr v)"
| "nodes_stmt (Delete ts l) = 1 + sum_list (map nodes_expr ts)"
| "nodes_stmt (Assign ts v tc l) = 1 + sum_list (map nodes_expr ts) + nodes_expr v"
| "nodes_stmt (TypeAlias n tps v l) =
     1 + nodes_expr n + sum_list (map nodes_type_param tps) + nodes_expr v"
| "nodes_stmt (AugAssign t op v l) = 2 + nodes_expr t + nodes_expr v"
| "nodes_stmt (AnnAssign t a v s l) =
     1 + nodes_expr t + nodes_expr a + osum (map_option nodes_expr v)"
| "nodes_stmt (For t i body orelse tc l) =
     1 + nodes_expr t + nodes_expr i + sum_list (map nodes_stmt body)
       + sum_list (map nodes_stmt orelse)"
| "nodes_stmt (AsyncFor t i body orelse tc l) =
     1 + nodes_expr t + nodes_expr i + sum_list (map nodes_stmt body)
       + sum_list (map nodes_stmt orelse)"
| "nodes_stmt (While c body orelse l) =
     1 + nodes_expr c + sum_list (map nodes_stmt body) + sum_list (map nodes_stmt orelse)"
| "nodes_stmt (If_stmt c body orelse l) =
     1 + nodes_expr c + sum_list (map nodes_stmt body) + sum_list (map nodes_stmt orelse)"
| "nodes_stmt (With items body tc l) =
     1 + sum_list (map nodes_withitem items) + sum_list (map nodes_stmt body)"
| "nodes_stmt (AsyncWith items body tc l) =
     1 + sum_list (map nodes_withitem items) + sum_list (map nodes_stmt body)"
| "nodes_stmt (Match s cs l) = 1 + nodes_expr s + sum_list (map nodes_match_case cs)"
| "nodes_stmt (Raise e c l) = 1 + osum (map_option nodes_expr e) + osum (map_option nodes_expr c)"
| "nodes_stmt (Try body hs orelse final l) =
     1 + sum_list (map nodes_stmt body) + sum_list (map nodes_excepthandler hs)
       + sum_list (map nodes_stmt orelse) + sum_list (map nodes_stmt final)"
| "nodes_stmt (TryStar body hs orelse final l) =
     1 + sum_list (map nodes_stmt body) + sum_list (map nodes_excepthandler hs)
       + sum_list (map nodes_stmt orelse) + sum_list (map nodes_stmt final)"
| "nodes_stmt (Assert c m l) = 1 + nodes_expr c + osum (map_option nodes_expr m)"
| "nodes_stmt (Import ns l) = 1 + length ns"
| "nodes_stmt (ImportFrom m ns lv l) = 1 + length ns"
| "nodes_stmt (Global ns l) = 1"
| "nodes_stmt (Nonlocal ns l) = 1"
| "nodes_stmt (Expr v l) = 1 + nodes_expr v"
| "nodes_stmt (Pass l) = 1"
| "nodes_stmt (Break l) = 1"
| "nodes_stmt (Continue l) = 1"
| "nodes_excepthandler (ExceptHandler t n body l) =
     1 + osum (map_option nodes_expr t) + sum_list (map nodes_stmt body)"
| "nodes_match_case (MatchCase p g body) =
     1 + nodes_pattern p + osum (map_option nodes_expr g) + sum_list (map nodes_stmt body)"

fun nodes_mod :: "mod_node \<Rightarrow> nat" where
  "nodes_mod (Module body tis) = 1 + sum_list (map nodes_stmt body) + length tis"
| "nodes_mod (Interactive body) = 1 + sum_list (map nodes_stmt body)"
| "nodes_mod (Expression e) = 1 + nodes_expr e"
| "nodes_mod (FunctionType as r) = 1 + sum_list (map nodes_expr as) + nodes_expr r"

fun node_size :: "node \<Rightarrow> nat" where
  "node_size (NMod m) = nodes_mod m"
| "node_size (NStmt s) = nodes_stmt s"
| "node_size (NExpr e) = nodes_expr e"
| "node_size (NExprContext c) = 1"
| "node_size (NBoolop b) = 1"
| "node_size (NOperator b) = 1"
| "node_size (NUnaryop u) = 1"
| "node_size (NCmpop c) = 1"
| "node_size (NComprehension c) = nodes_comprehension c"
| "node_size (NExcepthandler h) = nodes_excepthandler h"
| "node_size (NArguments a) = nodes_arguments a"
| "node_size (NArg a) = nodes_arg a"
| "node_size (NKeyword k) = nodes_keyword k"
| "node_size (NAlias a) = 1"
| "node_size (NWithitem w) = nodes_withitem w"
| "node_size (NMatchCase c) = nodes_match_case c"
| "node_size (NPattern p) = nodes_pattern p"
| "node_size (NTypeIgnore t) = 1"
| "node_size (NTypeParam t) = nodes_type_param t"

subsection \<open>A node counts itself and the trees under its children\<close>

lemma size_opt: "sum_list (map node_size (opt f x)) = osum (map_option (node_size \<circ> f) x)"
  by (cases x) simp_all

lemma size_opts:
  "sum_list (map node_size (concat (map (opt f) xs)))
     = sum_list (map osum (map (map_option (node_size \<circ> f)) xs))"
  by (induction xs) (simp_all add: size_opt comp_def)

lemma size_leaves: "sum_list (map (\<lambda>x. Suc 0) xs) = length xs"
  by (induction xs) simp_all

lemmas size_children =
  size_opt size_opts size_leaves comp_def option.map_comp list.map_comp

lemma node_size_expr: "nodes_expr e = Suc (sum_list (map node_size (children_expr e)))"
  by (cases e) (simp_all add: size_children)

lemma node_size_stmt: "nodes_stmt s = Suc (sum_list (map node_size (children_stmt s)))"
  by (cases s) (simp_all add: size_children)

lemma node_size_pattern: "nodes_pattern p = Suc (sum_list (map node_size (children_pattern p)))"
  by (cases p) (simp_all add: size_children)

lemma node_size_children:
  "node_size n = Suc (sum_list (map node_size (iter_child_nodes n)))"
proof (cases n)
  case (NMod m)
  then show ?thesis by (cases m) (simp_all add: size_children)
next
  case (NStmt s)
  then show ?thesis by (simp add: node_size_stmt)
next
  case (NExpr e)
  then show ?thesis by (simp add: node_size_expr)
next
  case (NComprehension c)
  then show ?thesis by (cases c) (simp_all add: size_children)
next
  case (NExcepthandler h)
  then show ?thesis by (cases h) (simp_all add: size_children)
next
  case (NArguments a)
  then show ?thesis by (cases a) (simp_all add: size_children)
next
  case (NArg a)
  then show ?thesis by (cases a) (simp_all add: size_children)
next
  case (NKeyword k)
  then show ?thesis by (cases k) (simp_all add: size_children)
next
  case (NWithitem w)
  then show ?thesis by (cases w) (simp_all add: size_children)
next
  case (NMatchCase c)
  then show ?thesis by (cases c) (simp_all add: size_children)
next
  case (NPattern p)
  then show ?thesis by (simp add: node_size_pattern)
next
  case (NTypeParam t)
  then show ?thesis by (cases t) (simp_all add: size_children)
qed simp_all

lemma node_size_child: "c \<in> set (iter_child_nodes n) \<Longrightarrow> node_size c < node_size n"
proof -
  assume "c \<in> set (iter_child_nodes n)"
  then have "node_size c \<le> sum_list (map node_size (iter_child_nodes n))"
    by (simp add: member_le_sum_list)
  then show ?thesis by (simp add: node_size_children)
qed

text \<open>
  \<^verbatim>\<open>
  def walk(node):
      todo = deque([node])
      while todo:
          node = todo.popleft()
          todo.extend(iter_child_nodes(node))
          yield node
  \<close>
  The generator is modelled by the list of the nodes it yields: the loop takes the first
  node of the queue, appends its children at the end, and yields it.
\<close>

function walk_todo :: "node list \<Rightarrow> node list" where
  "walk_todo [] = []"
| "walk_todo (n # todo) = n # walk_todo (todo @ iter_child_nodes n)"
  by pat_completeness auto
termination
  by (relation "measure (\<lambda>todo. sum_list (map node_size todo))")
     (simp_all add: node_size_children)

definition walk :: "node \<Rightarrow> node list" where
  "walk n = walk_todo [n]"

section \<open>CodeAnalyzer\<close>

text \<open>
  \<^verbatim>\<open>
  def _get_decorator_name(self, decorator_node):
      if isinstance(decorator_node, ast.Name):
          return decorator_node.id
      elif isinstance(decorator_node, ast.Attribute):
          return decorator_node.attr
      return ""
  \<close>
\<close>

fun get_decorator_name :: "expr \<Rightarrow> string" where
  "get_decorator_name (Name i ctx l) = i"
| "get_decorator_name (Attribute v a ctx l) = a"
| "get_decorator_name _ = ''''"

text \<open>
  \<^verbatim>\<open>
  def _count_branches(self, node):
      count = 0
      for n in ast.walk(node):
          if isinstance(n, (ast.If, ast.For, ast.While, ast.Try, ast.With)):
              count += 1
      return count
  \<close>
  \<open>is_branch\<close> is the \<^verbatim>\<open>isinstance\<close> test.  Python integers are unbounded: \<open>int\<close>.  The counter \<^verbatim>\<open>count\<close> is \<open>cnt\<close>.
\<close>

fun is_branch :: "node \<Rightarrow> bool" where
  "is_branch (NStmt (If_stmt c body orelse l)) = True"
| "is_branch (NStmt (For t i body orelse tc l)) = True"
| "is_branch (NStmt (While c body orelse l)) = True"
| "is_branch (NStmt (Try body hs orelse final l)) = True"
| "is_branch (NStmt (With items body tc l)) = True"
| "is_branch _ = False"

fun count_branches_loop :: "node list \<Rightarrow> int \<Rightarrow> int" where
  "count_branches_loop [] cnt = cnt"
| "count_branches_loop (n # ns) cnt =
     count_branches_loop ns (if is_branch n then cnt + 1 else cnt)"

definition count_branches :: "node \<Rightarrow> int" where
  "count_branches nd = count_branches_loop (walk nd) 0"

text \<open>
  \<^verbatim>\<open>
  def _extract_calls(self, node):
      calls = []
      for n in ast.walk(node):
          if isinstance(n, ast.Call):
              if isinstance(n.func, ast.Name):
                  calls.append(n.func.id)
              elif isinstance(n.func, ast.Attribute):
                  calls.append(n.func.attr)
      return calls
  \<close>
\<close>

fun extract_calls_loop :: "node list \<Rightarrow> string list \<Rightarrow> string list" where
  "extract_calls_loop [] cs = cs"
| "extract_calls_loop (NExpr (Call (Name i ctx l') as ks l) # ns) cs =
     extract_calls_loop ns (cs @ [i])"
| "extract_calls_loop (NExpr (Call (Attribute v a ctx l') as ks l) # ns) cs =
     extract_calls_loop ns (cs @ [a])"
| "extract_calls_loop (n # ns) cs = extract_calls_loop ns cs"

definition extract_calls :: "node \<Rightarrow> string list" where
  "extract_calls nd = extract_calls_loop (walk nd) []"

text \<open>
  The dictionary that \<^verbatim>\<open>extract_functions\<close> builds for a definition, with the keys of
  the source.
\<close>

record function_record =
  name :: ident
  node :: node
  args :: "ident list"
  is_async :: bool
  decorators :: "string list"
  complexity :: int
  calls :: "string list"
  line :: int

text \<open>The attributes \<^verbatim>\<open>node.args.args\<close> and \<^verbatim>\<open>arg.arg\<close>.\<close>

fun arguments_args :: "arguments \<Rightarrow> arg list" where
  "arguments_args (Arguments ps as va kws kds kwa ds) = as"

fun arg_arg :: "arg \<Rightarrow> ident" where
  "arg_arg (Arg a ann tc l) = a"

text \<open>
  \<^verbatim>\<open>
  def extract_functions(self):
      functions = []
      for node in ast.walk(self.tree):
          if isinstance(node, (ast.FunctionDef, ast.AsyncFunctionDef)):
              functions.append({
                  'name': node.name,
                  'node': node,
                  'args': [arg.arg for arg in node.args.args],
                  'is_async': isinstance(node, ast.AsyncFunctionDef),
                  'decorators': [self._get_decorator_name(d) for d in node.decorator_list],
                  'complexity': self._count_branches(node),
                  'calls': self._extract_calls(node),
                  'line': node.lineno
              })
      return functions
  \<close>
  \<open>function_record_of\<close> is the body of the loop: the \<^verbatim>\<open>isinstance\<close> test and the
  dictionary, \<open>None\<close> when the test fails.  The method assigns nothing to \<^verbatim>\<open>self\<close>; the
  model returns the analyzer next to the list, so that this can be stated.
\<close>

fun function_record_of :: "node \<Rightarrow> function_record option" where
  "function_record_of (NStmt (FunctionDef n as body ds r tc tps l)) =
     Some \<lparr> name = n,
            node = NStmt (FunctionDef n as body ds r tc tps l),
            args = map arg_arg (arguments_args as),
            is_async = False,
            decorators = map get_decorator_name ds,
            complexity = count_branches (NStmt (FunctionDef n as body ds r tc tps l)),
            calls = extract_calls (NStmt (FunctionDef n as body ds r tc tps l)),
            line = lineno l \<rparr>"
| "function_record_of (NStmt (AsyncFunctionDef n as body ds r tc tps l)) =
     Some \<lparr> name = n,
            node = NStmt (AsyncFunctionDef n as body ds r tc tps l),
            args = map arg_arg (arguments_args as),
            is_async = True,
            decorators = map get_decorator_name ds,
            complexity = count_branches (NStmt (AsyncFunctionDef n as body ds r tc tps l)),
            calls = extract_calls (NStmt (AsyncFunctionDef n as body ds r tc tps l)),
            line = lineno l \<rparr>"
| "function_record_of _ = None"

fun extract_functions_loop :: "node list \<Rightarrow> function_record list \<Rightarrow> function_record list" where
  "extract_functions_loop [] functions = functions"
| "extract_functions_loop (n # ns) functions =
     (case function_record_of n of
        Some r \<Rightarrow> extract_functions_loop ns (functions @ [r])
      | None \<Rightarrow> extract_functions_loop ns functions)"

record code_analyzer =
  file_path :: string
  code :: string
  tree :: mod_node


definition extract_functions :: "code_analyzer \<Rightarrow> function_record list \<times> code_analyzer" where
  "extract_functions self = (extract_functions_loop (walk (NMod (tree self))) [], self)"

text \<open>
  \<^verbatim>\<open>
  def calculate_priority(self, func):
      priority = func['complexity']
      if func['is_async']:
          priority += 2
      if len(func['args']) > 3:
          priority += 1
      return priority
  \<close>
\<close>

definition calculate_priority :: "function_record \<Rightarrow> int" where
  "calculate_priority func =
     (let priority = complexity func;
          priority = (if is_async func then priority + 2 else priority);
          priority = (if length (args func) > 3 then priority + 1 else priority)
      in priority)"

section \<open>The tree, independently of the walk\<close>

text \<open>
  The nodes of the tree under a node, by recursion over the tree: the node itself, then
  the nodes under each of its children.  \<open>descendants\<close> leaves the node itself out.
\<close>

function subnodes :: "node \<Rightarrow> node list" where
  "subnodes n = n # concat (map subnodes (iter_child_nodes n))"
  by pat_completeness auto
termination
  by (relation "measure node_size") (simp_all add: node_size_child)

declare subnodes.simps [simp del]

definition descendants :: "node \<Rightarrow> node list" where
  "descendants n = concat (map subnodes (iter_child_nodes n))"

text \<open>
  The nodes at a given depth under a node, from left to right, and the level order of a
  tree: depth 0 (the node), then depth 1 (its children), and so on.  No node lies at a
  depth of \<open>node_size n\<close> or more.
\<close>

fun nodes_at_depth :: "nat \<Rightarrow> node \<Rightarrow> node list" where
  "nodes_at_depth 0 n = [n]"
| "nodes_at_depth (Suc d) n = concat (map iter_child_nodes (nodes_at_depth d n))"

definition level_order :: "node \<Rightarrow> node list" where
  "level_order n = concat (map (\<lambda>d. nodes_at_depth d n) [0..<node_size n])"

text \<open>A function definition or asynchronous function definition node.\<close>

fun is_function_def :: "node \<Rightarrow> bool" where
  "is_function_def (NStmt (FunctionDef n as body ds r tc tps l)) = True"
| "is_function_def (NStmt (AsyncFunctionDef n as body ds r tc tps l)) = True"
| "is_function_def _ = False"

text \<open>
  The name a call expression contributes: the identifier of a call through a bare name,
  the trailing attribute of a call through an attribute access; nothing for any other
  node.
\<close>

fun callee_name :: "node \<Rightarrow> string option" where
  "callee_name (NExpr (Call (Name i ctx l') as ks l)) = Some i"
| "callee_name (NExpr (Call (Attribute v a ctx l') as ks l)) = Some a"
| "callee_name _ = None"

text \<open>
  The positional parameters of a parameter list, in declaration order: the
  positional-only ones (before \<^verbatim>\<open>/\<close>), then the ordinary ones, which can also be passed by
  keyword.  \<^verbatim>\<open>*args\<close>, the keyword-only parameters and \<^verbatim>\<open>**kwargs\<close> are not positional.
\<close>

fun positional_parameters :: "arguments \<Rightarrow> arg list" where
  "positional_parameters (Arguments ps as va kws kds kwa ds) = ps @ as"

section \<open>Example files\<close>

text \<open>
  The trees below are what \<^verbatim>\<open>ast.parse\<close> returns for the texts next to them (with
  \<^verbatim>\<open>type_params\<close> empty and the source positions of the parser).
\<close>

definition span :: "int \<Rightarrow> int \<Rightarrow> int \<Rightarrow> int \<Rightarrow> location" where
  "span l c el ec = Location l c (Some el) (Some ec)"

definition source_text :: "string list \<Rightarrow> string" where
  "source_text ls = concat (map (\<lambda>l. l @ [CHR 0x0A]) ls)"

definition analyzer :: "string \<Rightarrow> string list \<Rightarrow> mod_node \<Rightarrow> code_analyzer" where
  "analyzer path ls t = \<lparr> file_path = path, code = source_text ls, tree = t \<rparr>"

definition no_arguments :: arguments where
  "no_arguments = Arguments [] [] None [] [] None []"

text \<open>One conditional, one for-loop and one nested function holding one while-loop.\<close>

definition nested_inner :: stmt where
  "nested_inner =
     FunctionDef ''inner'' no_arguments
       [While (Name ''x'' Load (span 7 14 7 15)) [Pass (span 8 12 8 16)] [] (span 7 8 8 16)]
       [] None None [] (span 6 4 8 16)"

definition nested_outer :: stmt where
  "nested_outer =
     FunctionDef ''outer''
       (Arguments [] [Arg ''x'' None None (span 1 10 1 11)] None [] [] None [])
       [If_stmt (Name ''x'' Load (span 2 7 2 8)) [Pass (span 3 8 3 12)] [] (span 2 4 3 12),
        For (Name ''i'' Store (span 4 8 4 9)) (Name ''x'' Load (span 4 13 4 14))
          [Pass (span 5 8 5 12)] [] None (span 4 4 5 12),
        nested_inner]
       [] None None [] (span 1 0 8 16)"

definition nested_py :: code_analyzer where
  "nested_py = analyzer ''nested.py''
     [''def outer(x):'',
      ''    if x:'',
      ''        pass'',
      ''    for i in x:'',
      ''        pass'',
      ''    def inner():'',
      ''        while x:'',
      ''            pass'']
     (Module [nested_outer] [])"

text \<open>A call through a name, one through an attribute, and a call of a call's result.\<close>

definition calls_f :: stmt where
  "calls_f =
     FunctionDef ''f'' no_arguments
       [Expr (Call (Name ''helper'' Load (span 2 4 2 10)) [] [] (span 2 4 2 12))
          (span 2 4 2 12),
        Expr (Call (Attribute (Name ''obj'' Load (span 3 4 3 7)) ''method'' Load
                      (span 3 4 3 14)) [] [] (span 3 4 3 16))
          (span 3 4 3 16),
        Expr (Call (Call (Name ''get_fn'' Load (span 4 5 4 11)) [] [] (span 4 5 4 13))
                [] [] (span 4 4 4 16))
          (span 4 4 4 16)]
       [] None None [] (span 1 0 4 16)"

definition calls_py :: code_analyzer where
  "calls_py = analyzer ''calls.py''
     [''def f():'',
      ''    helper()'',
      ''    obj.method()'',
      ''    (get_fn())()'']
     (Module [calls_f] [])"

text \<open>A bare-name decorator and an attribute-access decorator.\<close>

definition decorated_f :: stmt where
  "decorated_f =
     FunctionDef ''f'' no_arguments [Pass (span 4 4 4 8)]
       [Name ''foo'' Load (span 1 1 1 4),
        Attribute (Name ''bar'' Load (span 2 1 2 4)) ''baz'' Load (span 2 1 2 8)]
       None None [] (span 3 0 4 8)"

definition decorated_py :: code_analyzer where
  "decorated_py = analyzer ''decorated.py''
     [''@foo'',
      ''@bar.baz'',
      ''def f():'',
      ''    pass'']
     (Module [decorated_f] [])"

text \<open>A decorator that is a call: neither a bare name nor an attribute access.\<close>

definition route_decorator :: expr where
  "route_decorator =
     Call (Attribute (Name ''app'' Load (span 1 1 1 4)) ''route'' Load (span 1 1 1 10))
       [Constant (CInt 1) None (span 1 11 1 12)] [] (span 1 1 1 13)"

definition route_index :: stmt where
  "route_index =
     FunctionDef ''index'' no_arguments [Pass (span 3 4 3 8)] [route_decorator]
       None None [] (span 2 0 3 8)"

definition route_py :: code_analyzer where
  "route_py = analyzer ''route.py''
     [''@app.route(1)'',
      ''def index():'',
      ''    pass'']
     (Module [route_index] [])"

text \<open>Three definitions of one name: at top level, in a class body, in a function.\<close>

definition duplicates_py :: code_analyzer where
  "duplicates_py = analyzer ''duplicates.py''
     [''def f():'',
      ''    pass'',
      ''class A:'',
      ''    def f(self):'',
      ''        async def f():'',
      ''            pass'']
     (Module
        [FunctionDef ''f'' no_arguments [Pass (span 2 4 2 8)] [] None None [] (span 1 0 2 8),
         ClassDef ''A'' [] []
           [FunctionDef ''f''
              (Arguments [] [Arg ''self'' None None (span 4 10 4 14)] None [] [] None [])
              [AsyncFunctionDef ''f'' no_arguments [Pass (span 6 12 6 16)] [] None None []
                 (span 5 8 6 16)]
              [] None None [] (span 4 4 6 16)]
           [] [] (span 3 0 6 16)]
        [])"

text \<open>A positional-only parameter and an ordinary one.\<close>

definition posonly_arguments :: arguments where
  "posonly_arguments =
     Arguments [Arg ''a'' None None (span 1 6 1 7)] [Arg ''b'' None None (span 1 12 1 13)]
       None [] [] None []"

definition posonly_f :: stmt where
  "posonly_f =
     FunctionDef ''f'' posonly_arguments [Pass (span 2 4 2 8)] [] None None []
       (span 1 0 2 8)"

definition posonly_py :: code_analyzer where
  "posonly_py = analyzer ''posonly.py''
     [''def f(a, /, b):'',
      ''    pass'']
     (Module [posonly_f] [])"

text \<open>An asynchronous function whose body is an asynchronous loop and an asynchronous with.\<close>

definition asyncs_g :: stmt where
  "asyncs_g =
     AsyncFunctionDef ''g''
       (Arguments [] [Arg ''xs'' None None (span 1 12 1 14),
                      Arg ''cm'' None None (span 1 16 1 18)] None [] [] None [])
       [AsyncFor (Name ''x'' Store (span 2 14 2 15)) (Name ''xs'' Load (span 2 19 2 21))
          [Pass (span 3 8 3 12)] [] None (span 2 4 3 12),
        AsyncWith [Withitem (Name ''cm'' Load (span 4 15 4 17)) None]
          [Pass (span 5 8 5 12)] None (span 4 4 5 12)]
       [] None None [] (span 1 0 5 12)"

definition asyncs_py :: code_analyzer where
  "asyncs_py = analyzer ''asyncs.py''
     [''async def g(xs, cm):'',
      ''    async for x in xs:'',
      ''        pass'',
      ''    async with cm:'',
      ''        pass'']
     (Module [asyncs_g] [])"

text \<open>A file whose only callable is a lambda.\<close>

definition lambdas_py :: code_analyzer where
  "lambdas_py = analyzer ''lambdas.py''
     [''f = lambda x: x'']
     (Module
        [Assign [Name ''f'' Store (span 1 0 1 1)]
           (Lambda (Arguments [] [Arg ''x'' None None (span 1 11 1 12)] None [] [] None [])
              (Name ''x'' Load (span 1 14 1 15)) (span 1 4 1 15))
           None (span 1 0 1 15)]
        [])"

text \<open>
  Exception classes of Python, and the two classes the specification names: \<^verbatim>\<open>IOError\<close>
  (an alias of \<^verbatim>\<open>OSError\<close>, whose subclasses include \<^verbatim>\<open>FileNotFoundError\<close> and
  \<^verbatim>\<open>PermissionError\<close>) and \<^verbatim>\<open>SyntaxError\<close>.  \<^verbatim>\<open>ValueError\<close>, its subclass
  \<^verbatim>\<open>UnicodeDecodeError\<close>, \<^verbatim>\<open>MemoryError\<close> and \<^verbatim>\<open>RecursionError\<close> belong to neither.
\<close>

datatype exn =
    FileNotFoundError | PermissionError | ValueError | UnicodeDecodeError
  | SyntaxError | MemoryError | RecursionError







section \<open>The walk visits every node of the tree once\<close>

lemma walk_todo_mset: "mset (walk_todo todo) = mset (concat (map subnodes todo))"
proof (induction todo rule: walk_todo.induct)
  case 1
  show ?case by simp
next
  case (2 n todo)
  have "mset (walk_todo (n # todo))
          = {#n#} + mset (concat (map subnodes (iter_child_nodes n)))
              + mset (concat (map subnodes todo))"
    using 2 by simp
  also have "{#n#} + mset (concat (map subnodes (iter_child_nodes n))) = mset (subnodes n)"
    by (subst subnodes.simps) simp
  finally show ?case by simp
qed



lemma walk_mset: "mset (walk n) = mset (subnodes n)"
  unfolding walk_def walk_todo_mset by simp

lemma filter_walk_mset: "mset (filter P (walk n)) = mset (filter P (subnodes n))"
  by (simp add: walk_mset)

lemma length_filter_walk: "length (filter P (walk n)) = length (filter P (subnodes n))"
  using filter_walk_mset [of P n] by (metis size_mset)

lemma set_walk: "set (walk n) = set (subnodes n)"
  using walk_mset [of n] by (metis set_mset_mset)

lemma subnodes_descendants: "subnodes n = n # descendants n"
  by (subst subnodes.simps) (simp add: descendants_def)

subsection \<open>The walk is the level order\<close>

lemma walk_todo_append:
  "walk_todo (xs @ ys) = xs @ walk_todo (ys @ concat (map iter_child_nodes xs))"
  by (induction xs arbitrary: ys) simp_all

lemma walk_todo_level: "walk_todo xs = xs @ walk_todo (concat (map iter_child_nodes xs))"
  using walk_todo_append [of xs "[]"] by simp

lemma walk_levels:
  "walk n = concat (map (\<lambda>d. nodes_at_depth d n) [0..<k]) @ walk_todo (nodes_at_depth k n)"
proof (induction k)
  case 0
  show ?case by (simp add: walk_def)
next
  case (Suc k)
  have "walk_todo (nodes_at_depth k n) = nodes_at_depth k n @ walk_todo (nodes_at_depth (Suc k) n)"
    using walk_todo_level [of "nodes_at_depth k n"] by simp
  with Suc show ?case by simp
qed

lemma node_size_pos: "0 < node_size n"
  by (simp add: node_size_children)

lemma size_next_level:
  "sum_list (map node_size (concat (map iter_child_nodes xs))) + length xs
     = sum_list (map node_size xs)"
proof (induction xs)
  case Nil
  show ?case by simp
next
  case (Cons x xs)
  with node_size_children [of x] show ?case by simp
qed

lemma size_nodes_at_depth:
  "nodes_at_depth d n \<noteq> [] \<Longrightarrow> sum_list (map node_size (nodes_at_depth d n)) + d \<le> node_size n"
proof (induction d)
  case 0
  show ?case by simp
next
  case (Suc d)
  then have ne: "nodes_at_depth d n \<noteq> []" by auto
  then have "0 < length (nodes_at_depth d n)" by simp
  with size_next_level [of "nodes_at_depth d n"]
  have "sum_list (map node_size (nodes_at_depth (Suc d) n)) + 1
          \<le> sum_list (map node_size (nodes_at_depth d n))"
    unfolding nodes_at_depth.simps by linarith
  with Suc.IH [OF ne] show ?case by simp
qed

lemma nodes_at_depth_empty: "node_size n \<le> d \<Longrightarrow> nodes_at_depth d n = []"
proof (rule ccontr)
  assume d: "node_size n \<le> d" and ne: "nodes_at_depth d n \<noteq> []"
  then obtain x where "x \<in> set (nodes_at_depth d n)" by (cases "nodes_at_depth d n") auto
  then have "node_size x \<le> sum_list (map node_size (nodes_at_depth d n))"
    by (simp add: member_le_sum_list)
  with node_size_pos [of x] size_nodes_at_depth [OF ne] d show False by simp
qed

lemma walk_level_order: "walk n = level_order n"
  using walk_levels [of n "node_size n"]
  by (simp add: level_order_def nodes_at_depth_empty)

section \<open>The loops in closed form\<close>

lemma count_branches_loop_eq:
  "count_branches_loop ns cnt = cnt + int (length (filter is_branch ns))"
  by (induction ns arbitrary: cnt) simp_all

lemma extract_calls_loop_eq:
  "extract_calls_loop ns cs = cs @ List.map_filter callee_name ns"
  by (induction ns cs rule: extract_calls_loop.induct) simp_all

lemma extract_functions_loop_eq:
  "extract_functions_loop ns fs = fs @ List.map_filter function_record_of ns"
  by (induction ns arbitrary: fs) (simp_all split: option.splits)

lemma in_map_filter: "y \<in> set (List.map_filter f xs) \<longleftrightarrow> (\<exists>x \<in> set xs. f x = Some y)"
  by (induction xs) (auto split: option.splits)

lemma function_record_of_node: "function_record_of n = Some r \<Longrightarrow> node r = n"
  by (induction n rule: function_record_of.induct) auto

lemma is_function_def_iff_record: "is_function_def n \<longleftrightarrow> function_record_of n \<noteq> None"
  by (induction n rule: function_record_of.induct) simp_all

lemma function_record_of_complexity:
  "function_record_of n = Some r \<Longrightarrow> complexity r = count_branches n"
  by (induction n rule: function_record_of.induct) auto

lemma function_record_of_calls:
  "function_record_of n = Some r \<Longrightarrow> calls r = extract_calls n"
  by (induction n rule: function_record_of.induct) auto

lemma map_node_records:
  "map node (List.map_filter function_record_of ns) = filter is_function_def ns"
  by (induction ns)
     (auto simp: is_function_def_iff_record function_record_of_node split: option.splits)

lemma extracted_nodes:
  "map node (fst (extract_functions self)) = filter is_function_def (walk (NMod (tree self)))"
  by (simp add: extract_functions_def extract_functions_loop_eq map_node_records)

lemma extracted_record:
  "r \<in> set (fst (extract_functions self)) \<Longrightarrow>
     function_record_of (node r) = Some r \<and> node r \<in> set (subnodes (NMod (tree self)))"
  by (auto simp: extract_functions_def extract_functions_loop_eq in_map_filter
                 function_record_of_node set_walk)

lemma is_function_def_not_branch: "is_function_def n \<Longrightarrow> \<not> is_branch n"
  by (induction n rule: is_function_def.induct) simp_all

lemma count_branches_eq: "count_branches n = int (length (filter is_branch (subnodes n)))"
  by (simp add: count_branches_def count_branches_loop_eq length_filter_walk)

lemma function_record_of_fields:
  assumes "function_record_of n = Some r"
  shows "\<exists>nm as body ds rt tc tps l.
           (n = NStmt (FunctionDef nm as body ds rt tc tps l) \<and> \<not> is_async r
            \<or> n = NStmt (AsyncFunctionDef nm as body ds rt tc tps l) \<and> is_async r)
           \<and> name r = nm \<and> args r = map arg_arg (arguments_args as)
           \<and> decorators r = map get_decorator_name ds \<and> line r = lineno l"
  using assms by (induction n rule: function_record_of.induct) auto

lemma count_branches_children:
  "count_branches n
     = (if is_branch n then 1 else 0) + sum_list (map count_branches (iter_child_nodes n))"
proof -
  have "int (length (filter is_branch (concat (map subnodes ns))))
          = sum_list (map count_branches ns)" for ns
    by (induction ns) (simp_all add: count_branches_eq)
  then have "int (length (filter is_branch (descendants n)))
          = sum_list (map count_branches (iter_child_nodes n))"
    by (simp add: descendants_def)
  then show ?thesis
    by (simp add: count_branches_eq [of n] subnodes_descendants)
qed

section \<open>The claims\<close>

text \<open>
  C1.  For every parsed file, \<^verbatim>\<open>extract_functions\<close> returns exactly one record per
  function or asynchronous function definition node of the tree, at every nesting depth
  and whatever the names: the nodes of the records are, as a multiset, the definition
  nodes among all nodes of the tree, and the length of the list is their number.  The
  file with three definitions named \<^verbatim>\<open>f\<close> (lines 1, 4 and 5) gives three records.
\<close>

theorem extract_functions_one_record_per_definition:
  "length (fst (extract_functions self))
     = length (filter is_function_def (subnodes (NMod (tree self))))
   \<and> mset (map node (fst (extract_functions self)))
     = mset (filter is_function_def (subnodes (NMod (tree self))))
   \<and> map name (fst (extract_functions duplicates_py)) = [''f'', ''f'', ''f'']
   \<and> map line (fst (extract_functions duplicates_py)) = [1, 4, 5]"
proof (intro conjI)
  have "length (fst (extract_functions self)) = length (map node (fst (extract_functions self)))"
    by simp
  also have "\<dots> = length (filter is_function_def (subnodes (NMod (tree self))))"
    by (simp only: extracted_nodes length_filter_walk)
  finally show "length (fst (extract_functions self))
      = length (filter is_function_def (subnodes (NMod (tree self))))" .
next
  show "mset (map node (fst (extract_functions self)))
      = mset (filter is_function_def (subnodes (NMod (tree self))))"
    by (simp only: extracted_nodes filter_walk_mset)
next
  show "map name (fst (extract_functions duplicates_py)) = [''f'', ''f'', ''f'']"
    by code_simp
next
  show "map line (fst (extract_functions duplicates_py)) = [1, 4, 5]"
    by code_simp
qed

text \<open>
  C2.  The complexity of every extracted record is the number of descendants of its
  definition node that are an \<^verbatim>\<open>If\<close>, \<^verbatim>\<open>For\<close>, \<^verbatim>\<open>While\<close>, \<^verbatim>\<open>Try\<close> or \<^verbatim>\<open>With\<close> node, each
  counted once, those inside nested definitions included.  For the function with one
  conditional, one for-loop and a nested function holding one while-loop it is 3 (and 1
  for the nested function).
\<close>

theorem complexity_counts_branch_descendants:
  "(\<forall>r \<in> set (fst (extract_functions self)).
      complexity r = int (length (filter is_branch (descendants (node r)))))
   \<and> map name (fst (extract_functions nested_py)) = [''outer'', ''inner'']
   \<and> map complexity (fst (extract_functions nested_py)) = [3, 1]"
proof (intro conjI ballI)
  fix r
  assume "r \<in> set (fst (extract_functions self))"
  then have r: "function_record_of (node r) = Some r"
    by (simp add: extracted_record)
  then have "is_function_def (node r)"
    by (simp add: is_function_def_iff_record)
  then have "\<not> is_branch (node r)"
    by (rule is_function_def_not_branch)
  moreover from r have "complexity r = count_branches (node r)"
    by (rule function_record_of_complexity)
  ultimately show "complexity r = int (length (filter is_branch (descendants (node r))))"
    by (simp add: count_branches_eq subnodes_descendants)
next
  show "map name (fst (extract_functions nested_py)) = [''outer'', ''inner'']"
    by code_simp
next
  show "map complexity (fst (extract_functions nested_py)) = [3, 1]"
    by code_simp
qed

theorem complexity_counts_branch_descendants_witness:
  "hd (fst (extract_functions nested_py)) \<in> set (fst (extract_functions nested_py))
   \<and> complexity (hd (fst (extract_functions nested_py)))
       = int (length (filter is_branch
                (descendants (node (hd (fst (extract_functions nested_py)))))))
   \<and> complexity (hd (fst (extract_functions nested_py))) = 3"
proof -
  have "fst (extract_functions nested_py) \<noteq> []"
    by code_simp
  then have "hd (fst (extract_functions nested_py)) \<in> set (fst (extract_functions nested_py))"
    by simp
  moreover have "complexity (hd (fst (extract_functions nested_py))) = 3"
    by code_simp
  ultimately show ?thesis
    using complexity_counts_branch_descendants [of nested_py] by blast
qed

text \<open>
  C3.  \<^verbatim>\<open>calculate_priority\<close> is a total function of the record: the complexity, plus 2
  for an asynchronous function, plus 1 when there are more than 3 parameters, however
  many more.  A synchronous record of complexity 2 with 5 parameters gets 3; an
  asynchronous one of complexity 0 with 1 parameter gets 2.
\<close>

theorem calculate_priority_formula:
  "calculate_priority func
     = complexity func + (if is_async func then 2 else 0)
         + (if length (args func) > 3 then 1 else 0)
   \<and> calculate_priority
         \<lparr> name = n1, node = nd1, args = [p1, p2, p3, p4, p5], is_async = False,
           decorators = ds1, complexity = 2, calls = cs1, line = l1 \<rparr> = 3
   \<and> calculate_priority
         \<lparr> name = n2, node = nd2, args = [q1], is_async = True,
           decorators = ds2, complexity = 0, calls = cs2, line = l2 \<rparr> = 2"
  by (simp add: calculate_priority_def)

text \<open>
  C4, as stated, fails on its own example: in \<^verbatim>\<open>(get_fn())()\<close> the outer call is left
  out, but the inner call \<^verbatim>\<open>get_fn()\<close> is a call through a bare name and is recorded, so
  the list has three names.
\<close>

theorem calls_example_counterexample:
  "map name (fst (extract_functions calls_py)) = [''f'']
   \<and> map calls (fst (extract_functions calls_py)) \<noteq> [[''helper'', ''method'']]"
  by code_simp

text \<open>
  C4, amended.  The calls of every extracted record are the names contributed by the
  call expressions of the definition's tree (decorators, parameters and body, nested
  definitions included), in the order of the walk, which is the level order of the tree:
  the identifier for a call through a bare name, the trailing attribute for a call
  through an attribute access, nothing for any other call.  The function calling
  \<^verbatim>\<open>helper()\<close>, \<^verbatim>\<open>obj.method()\<close> and \<^verbatim>\<open>(get_fn())()\<close> has the calls \<^verbatim>\<open>helper\<close>, \<^verbatim>\<open>method\<close>,
  \<^verbatim>\<open>get_fn\<close>; the function decorated with \<^verbatim>\<open>@app.route(1)\<close>, whose body calls nothing,
  has the call \<^verbatim>\<open>route\<close>.
\<close>

theorem calls_in_level_order:
  "(\<forall>r \<in> set (fst (extract_functions self)).
      calls r = List.map_filter callee_name (level_order (node r))
      \<and> mset (level_order (node r)) = mset (subnodes (node r)))
   \<and> map calls (fst (extract_functions calls_py)) = [[''helper'', ''method'', ''get_fn'']]
   \<and> map calls (fst (extract_functions route_py)) = [[''route'']]"
proof (intro conjI ballI)
  fix r
  assume "r \<in> set (fst (extract_functions self))"
  then have "function_record_of (node r) = Some r"
    by (simp add: extracted_record)
  then have "calls r = extract_calls (node r)"
    by (rule function_record_of_calls)
  then show "calls r = List.map_filter callee_name (level_order (node r))"
    by (simp add: extract_calls_def extract_calls_loop_eq walk_level_order)
next
  fix r :: function_record
  show "mset (level_order (node r)) = mset (subnodes (node r))"
    by (simp add: walk_mset flip: walk_level_order)
next
  show "map calls (fst (extract_functions calls_py)) = [[''helper'', ''method'', ''get_fn'']]"
    by code_simp
next
  show "map calls (fst (extract_functions route_py)) = [[''route'']]"
    by code_simp
qed

theorem calls_in_level_order_witness:
  "hd (fst (extract_functions calls_py)) \<in> set (fst (extract_functions calls_py))
   \<and> calls (hd (fst (extract_functions calls_py)))
       = List.map_filter callee_name (level_order (node (hd (fst (extract_functions calls_py)))))
   \<and> calls (hd (fst (extract_functions calls_py))) = [''helper'', ''method'', ''get_fn'']"
proof -
  have "fst (extract_functions calls_py) \<noteq> []"
    by code_simp
  then have "hd (fst (extract_functions calls_py)) \<in> set (fst (extract_functions calls_py))"
    by simp
  moreover have "calls (hd (fst (extract_functions calls_py))) = [''helper'', ''method'', ''get_fn'']"
    by code_simp
  ultimately show ?thesis
    using calls_in_level_order [of calls_py] by blast
qed

text \<open>
  C5.  The decorators of every extracted record have one entry per decorator expression
  of the definition, in order: the identifier of a bare name, the trailing attribute of
  an attribute access, the empty string for any other expression.  A definition without
  decorators has the empty list; one decorated with \<^verbatim>\<open>foo\<close> and \<^verbatim>\<open>bar.baz\<close> has \<^verbatim>\<open>foo\<close>,
  \<^verbatim>\<open>baz\<close>; one decorated with the call \<^verbatim>\<open>app.route(1)\<close> has one empty string.
\<close>

theorem decorators_one_entry_per_decorator:
  "(\<forall>r \<in> set (fst (extract_functions self)).
      \<exists>n as body ds rt tc tps l.
        (node r = NStmt (FunctionDef n as body ds rt tc tps l)
         \<or> node r = NStmt (AsyncFunctionDef n as body ds rt tc tps l))
        \<and> decorators r = map get_decorator_name ds)
   \<and> get_decorator_name (Name i ctx l) = i
   \<and> get_decorator_name (Attribute v a ctx l) = a
   \<and> ((\<forall>i ctx l. e \<noteq> Name i ctx l) \<and> (\<forall>v a ctx l. e \<noteq> Attribute v a ctx l)
        \<longrightarrow> get_decorator_name e = '''')
   \<and> map decorators (fst (extract_functions decorated_py)) = [[''foo'', ''baz'']]
   \<and> map decorators (fst (extract_functions calls_py)) = [[]]
   \<and> map decorators (fst (extract_functions route_py)) = [['''']]"
proof (intro conjI ballI impI)
  fix r
  assume "r \<in> set (fst (extract_functions self))"
  then have "function_record_of (node r) = Some r"
    by (simp add: extracted_record)
  from function_record_of_fields [OF this]
  show "\<exists>n as body ds rt tc tps l.
          (node r = NStmt (FunctionDef n as body ds rt tc tps l)
           \<or> node r = NStmt (AsyncFunctionDef n as body ds rt tc tps l))
          \<and> decorators r = map get_decorator_name ds"
    by blast
next
  assume "(\<forall>i ctx l. e \<noteq> Name i ctx l) \<and> (\<forall>v a ctx l. e \<noteq> Attribute v a ctx l)"
  then show "get_decorator_name e = ''''"
    by (cases e) simp_all
next
  show "map decorators (fst (extract_functions decorated_py)) = [[''foo'', ''baz'']]"
    by code_simp
next
  show "map decorators (fst (extract_functions calls_py)) = [[]]"
    by code_simp
next
  show "map decorators (fst (extract_functions route_py)) = [['''']]"
    by code_simp
qed simp_all

theorem decorators_one_entry_per_decorator_witness:
  "hd (fst (extract_functions decorated_py)) \<in> set (fst (extract_functions decorated_py))
   \<and> (\<exists>n as body ds rt tc tps l.
        (node (hd (fst (extract_functions decorated_py)))
           = NStmt (FunctionDef n as body ds rt tc tps l)
         \<or> node (hd (fst (extract_functions decorated_py)))
           = NStmt (AsyncFunctionDef n as body ds rt tc tps l))
        \<and> decorators (hd (fst (extract_functions decorated_py))) = map get_decorator_name ds)
   \<and> (\<forall>i ctx l. route_decorator \<noteq> Name i ctx l)
   \<and> (\<forall>v a ctx l. route_decorator \<noteq> Attribute v a ctx l)
   \<and> get_decorator_name route_decorator = ''''"
proof -
  have "fst (extract_functions decorated_py) \<noteq> []"
    by code_simp
  then have "hd (fst (extract_functions decorated_py)) \<in> set (fst (extract_functions decorated_py))"
    by simp
  moreover have "(\<forall>i ctx l. route_decorator \<noteq> Name i ctx l)
      \<and> (\<forall>v a ctx l. route_decorator \<noteq> Attribute v a ctx l)"
    by (simp add: route_decorator_def)
  ultimately show ?thesis
    using decorators_one_entry_per_decorator
            [where self = decorated_py and e = route_decorator, THEN conjunct1]
          decorators_one_entry_per_decorator
            [where self = decorated_py and e = route_decorator,
             THEN conjunct2, THEN conjunct2, THEN conjunct2, THEN conjunct1]
    by blast
qed



text \<open>
  C7.  \<^verbatim>\<open>extract_functions\<close> leaves the analyzer as it was, and a second call on the same
  analyzer returns the same list of records.
\<close>

theorem extract_functions_idempotent:
  "snd (extract_functions self) = self
   \<and> fst (extract_functions (snd (extract_functions self))) = fst (extract_functions self)"
  by (simp add: extract_functions_def)

text \<open>
  C8, as stated, fails for a definition with positional-only parameters: they are
  positional parameters, and the record does not list them.  For \<^verbatim>\<open>def f(a, /, b)\<close> the
  positional parameters are \<^verbatim>\<open>a\<close> and \<^verbatim>\<open>b\<close>, the record has \<^verbatim>\<open>b\<close> only.
\<close>

theorem parameters_counterexample:
  "map node (fst (extract_functions posonly_py)) = [NStmt posonly_f]
   \<and> map arg_arg (positional_parameters posonly_arguments) = [''a'', ''b'']
   \<and> map args (fst (extract_functions posonly_py))
       \<noteq> [map arg_arg (positional_parameters posonly_arguments)]"
  by code_simp

text \<open>
  C8, amended.  The parameters of every extracted record are the names, in declaration
  order, of the \<^verbatim>\<open>args\<close> list of the definition's parameters: the positional parameters
  that can also be passed by keyword, with or without a default.  Positional-only,
  variadic and keyword-only parameters are not listed, and defaults are not recorded.
  When the definition has no positional-only parameter, these are the names of all its
  positional parameters.
\<close>

theorem parameters_are_the_args_list:
  "(\<forall>r \<in> set (fst (extract_functions self)).
      \<forall>n ps as va kws kds kwa dfs body ds rt tc tps l.
        node r = NStmt (FunctionDef n (Arguments ps as va kws kds kwa dfs) body ds rt tc tps l)
        \<or> node r
            = NStmt (AsyncFunctionDef n (Arguments ps as va kws kds kwa dfs) body ds rt tc tps l)
        \<longrightarrow> args r = map arg_arg as
            \<and> (ps = [] \<longrightarrow>
                 args r
                   = map arg_arg (positional_parameters (Arguments ps as va kws kds kwa dfs))))
   \<and> map args (fst (extract_functions posonly_py)) = [[''b'']]
   \<and> map args (fst (extract_functions nested_py)) = [[''x''], []]"
proof (intro conjI ballI allI impI)
  fix r n ps as va kws kds kwa dfs body ds rt tc tps l
  assume "r \<in> set (fst (extract_functions self))"
    and nd: "node r = NStmt (FunctionDef n (Arguments ps as va kws kds kwa dfs) body ds rt tc tps l)
      \<or> node r
          = NStmt (AsyncFunctionDef n (Arguments ps as va kws kds kwa dfs) body ds rt tc tps l)"
  then have "function_record_of (node r) = Some r"
    by (simp add: extracted_record)
  with nd show as: "args r = map arg_arg as"
    by (auto dest!: function_record_of_fields)
  assume "ps = []"
  with as show "args r = map arg_arg (positional_parameters (Arguments ps as va kws kds kwa dfs))"
    by simp
next
  show "map args (fst (extract_functions posonly_py)) = [[''b'']]"
    by code_simp
next
  show "map args (fst (extract_functions nested_py)) = [[''x''], []]"
    by code_simp
qed

theorem parameters_are_the_args_list_witness:
  "hd (fst (extract_functions nested_py)) \<in> set (fst (extract_functions nested_py))
   \<and> node (hd (fst (extract_functions nested_py))) = NStmt nested_outer
   \<and> args (hd (fst (extract_functions nested_py)))
       = map arg_arg [Arg ''x'' None None (span 1 10 1 11)]
   \<and> args (hd (fst (extract_functions nested_py)))
       = map arg_arg (positional_parameters
           (Arguments [] [Arg ''x'' None None (span 1 10 1 11)] None [] [] None []))"
proof -
  have "fst (extract_functions nested_py) \<noteq> []"
    by code_simp
  then have mem: "hd (fst (extract_functions nested_py)) \<in> set (fst (extract_functions nested_py))"
    by simp
  have nd: "node (hd (fst (extract_functions nested_py))) = NStmt nested_outer"
    by code_simp
  from parameters_are_the_args_list [where self = nested_py, THEN conjunct1, THEN bspec, OF mem]
    nd [unfolded nested_outer_def]
  have "args (hd (fst (extract_functions nested_py)))
          = map arg_arg [Arg ''x'' None None (span 1 10 1 11)]
        \<and> (([]::arg list) = [] \<longrightarrow>
             args (hd (fst (extract_functions nested_py)))
               = map arg_arg (positional_parameters
                   (Arguments [] [Arg ''x'' None None (span 1 10 1 11)] None [] [] None [])))"
    by blast
  with mem nd show ?thesis
    by blast
qed

text \<open>
  C9.  The complexity counts the nodes of the five classes \<^verbatim>\<open>If\<close>, \<^verbatim>\<open>For\<close>, \<^verbatim>\<open>While\<close>,
  \<^verbatim>\<open>Try\<close>, \<^verbatim>\<open>With\<close> and no other.  An asynchronous for-loop and an asynchronous with-block
  are nodes of other classes: they add nothing to the count of the nodes under them,
  where a plain for-loop adds 1.  The asynchronous function whose body is one of each has
  complexity 0.
\<close>

theorem async_nodes_do_not_count:
  "count_branches n = int (length (filter is_branch (subnodes n)))
   \<and> (is_branch n \<longleftrightarrow>
        (\<exists>c body orelse l. n = NStmt (If_stmt c body orelse l))
        \<or> (\<exists>t i body orelse tc l. n = NStmt (For t i body orelse tc l))
        \<or> (\<exists>c body orelse l. n = NStmt (While c body orelse l))
        \<or> (\<exists>body hs orelse final l. n = NStmt (Try body hs orelse final l))
        \<or> (\<exists>items body tc l. n = NStmt (With items body tc l)))
   \<and> count_branches (NStmt (AsyncFor t i body orelse tc l))
       = sum_list (map count_branches (iter_child_nodes (NStmt (AsyncFor t i body orelse tc l))))
   \<and> count_branches (NStmt (AsyncWith items body tc l))
       = sum_list (map count_branches (iter_child_nodes (NStmt (AsyncWith items body tc l))))
   \<and> count_branches (NStmt (For t i body orelse tc l))
       = 1 + sum_list (map count_branches (iter_child_nodes (NStmt (For t i body orelse tc l))))
   \<and> map complexity (fst (extract_functions asyncs_py)) = [0]"
proof (intro conjI)
  show "count_branches n = int (length (filter is_branch (subnodes n)))"
    by (rule count_branches_eq)
next
  show "is_branch n \<longleftrightarrow>
        (\<exists>c body orelse l. n = NStmt (If_stmt c body orelse l))
        \<or> (\<exists>t i body orelse tc l. n = NStmt (For t i body orelse tc l))
        \<or> (\<exists>c body orelse l. n = NStmt (While c body orelse l))
        \<or> (\<exists>body hs orelse final l. n = NStmt (Try body hs orelse final l))
        \<or> (\<exists>items body tc l. n = NStmt (With items body tc l))"
    by (induction n rule: is_branch.induct) simp_all
next
  show "count_branches (NStmt (AsyncFor t i body orelse tc l))
       = sum_list (map count_branches (iter_child_nodes (NStmt (AsyncFor t i body orelse tc l))))"
    by (subst count_branches_children) simp
next
  show "count_branches (NStmt (AsyncWith items body tc l))
       = sum_list (map count_branches (iter_child_nodes (NStmt (AsyncWith items body tc l))))"
    by (subst count_branches_children) simp
next
  show "count_branches (NStmt (For t i body orelse tc l))
       = 1 + sum_list (map count_branches (iter_child_nodes (NStmt (For t i body orelse tc l))))"
    by (subst count_branches_children) simp
next
  show "map complexity (fst (extract_functions asyncs_py)) = [0]"
    by code_simp
qed

text \<open>
  C10.  A lambda expression is never the node of an extracted record, at any depth:
  the nodes of the records are function definitions and asynchronous function
  definitions, which are statements.  A file without such a definition, as one whose only
  callables are lambdas, gives the empty list.
\<close>

theorem lambdas_are_not_extracted:
  "NExpr (Lambda as b l) \<notin> set (map node (fst (extract_functions self)))
   \<and> (\<forall>r \<in> set (fst (extract_functions self)). is_function_def (node r))
   \<and> (filter is_function_def (subnodes (NMod (tree self))) = []
        \<longrightarrow> fst (extract_functions self) = [])
   \<and> (is_function_def n \<longleftrightarrow>
        (\<exists>nm ps body ds rt tc tps l'. n = NStmt (FunctionDef nm ps body ds rt tc tps l'))
        \<or> (\<exists>nm ps body ds rt tc tps l'. n = NStmt (AsyncFunctionDef nm ps body ds rt tc tps l')))
   \<and> fst (extract_functions lambdas_py) = []"
proof (intro conjI ballI impI)
  show "NExpr (Lambda as b l) \<notin> set (map node (fst (extract_functions self)))"
    by (simp only: extracted_nodes) simp
next
  fix r
  assume "r \<in> set (fst (extract_functions self))"
  then show "is_function_def (node r)"
    by (simp add: extracted_record is_function_def_iff_record)
next
  assume "filter is_function_def (subnodes (NMod (tree self))) = []"
  then have "length (fst (extract_functions self)) = 0"
    using length_filter_walk [of is_function_def "NMod (tree self)"]
      extracted_nodes [of self]
    by (metis length_map list.size(3))
  then show "fst (extract_functions self) = []"
    by simp
next
  show "is_function_def n \<longleftrightarrow>
        (\<exists>nm ps body ds rt tc tps l'. n = NStmt (FunctionDef nm ps body ds rt tc tps l'))
        \<or> (\<exists>nm ps body ds rt tc tps l'. n = NStmt (AsyncFunctionDef nm ps body ds rt tc tps l'))"
    by (induction n rule: is_function_def.induct) simp_all
next
  show "fst (extract_functions lambdas_py) = []"
    by code_simp
qed

theorem lambdas_are_not_extracted_witness:
  "hd (fst (extract_functions nested_py)) \<in> set (fst (extract_functions nested_py))
   \<and> is_function_def (node (hd (fst (extract_functions nested_py))))
   \<and> filter is_function_def (subnodes (NMod (tree lambdas_py))) = []
   \<and> fst (extract_functions lambdas_py) = []"
proof -
  have "fst (extract_functions nested_py) \<noteq> []"
    by code_simp
  then have "hd (fst (extract_functions nested_py)) \<in> set (fst (extract_functions nested_py))"
    by simp
  moreover have "filter is_function_def (subnodes (NMod (tree lambdas_py))) = []"
    by code_simp
  ultimately show ?thesis
    using lambdas_are_not_extracted [where self = nested_py, THEN conjunct2, THEN conjunct1]
      lambdas_are_not_extracted
        [where self = lambdas_py, THEN conjunct2, THEN conjunct2, THEN conjunct1]
    by blast
qed

end
